theory Spec2Isabelle
  imports Main
begin

section \<open>The host runtime: values, objects and property tables\<close>

text \<open>
  The decorator works on the property tables of the host's objects. An object is a cell of
  the world, addressed by its index; a function is an object with a call slot. A value of
  the declared type \<open>object\<close> is a reference, a value of type \<open>string | symbol\<close> is a key,
  and a missing one (\<open>undefined\<close> or \<open>null\<close>) is \<open>None\<close>.

  The tables hold data properties. The accessor that the decorator installs on the
  defining object is not stored in a table: it is represented by its getter, so a table
  entry under the decorated name is always a data property that shadows the accessor.
  The own \<open>length\<close> and \<open>name\<close> of a bound function are left out.
\<close>

type_synonym ref = nat

datatype key = KString string | KSymbol nat

datatype val =
    VUndefined
  | VNull
  | VBoolean bool
  | VNumber int
  | VString string
  | VSymbol nat
  | VObject ref

text \<open>The call slot: an ordinary function (its code), or a bound function exotic object
  with its target function and its bound receiver.\<close>

datatype callable = Ordinary nat | BoundFunction ref val

record PropertyDescriptor =
  pd_value :: val
  pd_configurable :: bool
  pd_writable :: bool
  pd_enumerable :: bool

record obj =
  props :: "key \<rightharpoonup> PropertyDescriptor"
  proto :: "ref option"
  extensible :: bool
  callable :: "callable option"

record world =
  objects :: "obj list"
  clock :: nat

datatype exn = TypeError string | BindingError string | BindError string

definition lookup :: "world \<Rightarrow> ref \<Rightarrow> obj option" where
  "lookup w r = (if r < length (objects w) then Some (objects w ! r) else None)"

text \<open>\<open>typeof v === 'function'\<close>\<close>

definition is_function :: "world \<Rightarrow> val \<Rightarrow> bool" where
  "is_function w v =
     (case v of
        VObject r \<Rightarrow> (case lookup w r of Some ob \<Rightarrow> callable ob \<noteq> None | None \<Rightarrow> False)
      | _ \<Rightarrow> False)"

text \<open>\<open>Object.prototype.hasOwnProperty.call(o, k)\<close>\<close>

definition hasOwnProperty :: "world \<Rightarrow> ref \<Rightarrow> key \<Rightarrow> bool" where
  "hasOwnProperty w r k =
     (case lookup w r of Some ob \<Rightarrow> props ob k \<noteq> None | None \<Rightarrow> False)"

text \<open>\<open>o[k]\<close>: the own property, else the prototype chain. A chain without a cycle visits
  every object at most once, so the number of objects is fuel enough.\<close>

primrec get_chain :: "nat \<Rightarrow> world \<Rightarrow> ref \<Rightarrow> key \<Rightarrow> val" where
  "get_chain 0 w r k = VUndefined"
| "get_chain (Suc n) w r k =
     (case lookup w r of
        None \<Rightarrow> VUndefined
      | Some ob \<Rightarrow>
          (case props ob k of
             Some d \<Rightarrow> pd_value d
           | None \<Rightarrow> (case proto ob of None \<Rightarrow> VUndefined | Some p \<Rightarrow> get_chain n w p k)))"

definition Get :: "world \<Rightarrow> ref \<Rightarrow> key \<Rightarrow> val" where
  "Get w r k = get_chain (length (objects w)) w r k"

text \<open>The intrinsic \<open>Object\<close> constructor is the first object of every world.\<close>

definition Object_constructor :: ref where
  "Object_constructor = 0"

text \<open>\<open>f.bind(thisArg)\<close>: a fresh bound function object; a receiver that is not callable
  is a \<open>TypeError\<close>.\<close>

definition bound_function_object :: "obj \<Rightarrow> ref \<Rightarrow> val \<Rightarrow> obj" where
  "bound_function_object tob t thisArg =
     \<lparr>props = Map.empty, proto = proto tob, extensible = True,
      callable = Some (BoundFunction t thisArg)\<rparr>"

definition Function_bind :: "world \<Rightarrow> val \<Rightarrow> val \<Rightarrow> (exn + val) \<times> world" where
  "Function_bind w f thisArg =
     (case f of
        VObject t \<Rightarrow>
          (case lookup w t of
             Some tob \<Rightarrow>
               (if callable tob \<noteq> None
                then (Inr (VObject (length (objects w))),
                      w\<lparr>objects := objects w @ [bound_function_object tob t thisArg]\<rparr>)
                else (Inl (TypeError ''Bind must be called on a function''), w))
           | None \<Rightarrow> (Inl (TypeError ''Bind must be called on a function''), w))
      | _ \<Rightarrow> (Inl (TypeError ''Bind must be called on a function''), w))"

text \<open>\<open>Object.defineProperty(o, k, d)\<close> for a complete data descriptor \<open>d\<close>: a new
  property needs an extensible object; an existing one can be redefined when it is
  configurable, or when the descriptor changes nothing that a non-configurable property
  fixes.\<close>

definition define_allowed :: "obj \<Rightarrow> key \<Rightarrow> PropertyDescriptor \<Rightarrow> bool" where
  "define_allowed ob k d =
     (case props ob k of
        None \<Rightarrow> extensible ob
      | Some cur \<Rightarrow>
          pd_configurable cur \<or>
          (\<not> pd_configurable d \<and> pd_enumerable d = pd_enumerable cur \<and>
           (pd_writable cur \<or> (\<not> pd_writable d \<and> pd_value d = pd_value cur))))"

definition Object_defineProperty ::
  "world \<Rightarrow> ref \<Rightarrow> key \<Rightarrow> PropertyDescriptor \<Rightarrow> (exn + unit) \<times> world" where
  "Object_defineProperty w r k d =
     (case lookup w r of
        None \<Rightarrow> (Inl (TypeError ''Object.defineProperty called on non-object''), w)
      | Some ob \<Rightarrow>
          (if define_allowed ob k d
           then (Inr (), w\<lparr>objects := (objects w)[r := ob\<lparr>props := (props ob)(k \<mapsto> d)\<rparr>]\<rparr>)
           else (Inl (TypeError ''Cannot define property''), w)))"

text \<open>\<open>Date.now()\<close>\<close>

definition Date_now :: "world \<Rightarrow> nat" where
  "Date_now w = clock w"


section \<open>states.ts\<close>

datatype phase = Phase_bind | Phase_define

text \<open>The argument of the \<open>InitialBindingState\<close> constructor, before validation.\<close>

record InitialBindingData =
  data_target :: "ref option"
  data_methodName :: "key option"
  data_method :: val
  data_instance :: "ref option"
  data_enumerable :: bool

text \<open>The state classes. \<open>ErrorTransitionState\<close> is the object literal that
  \<open>process\<close> hands to \<open>createErrorState\<close>.\<close>

datatype state =
    InitialBindingState
      (instance': ref) (methodName: key) (enumerable: bool) (target: ref) (method': val)
  | PrototypeMethodState
      (instance': ref) (methodName: key) (enumerable: bool) (target: ref) (method': val)
      (previousState: state)
  | ExistingBindState
      (instance': ref) (methodName: key) (enumerable: bool) (boundMethod: val)
      (previousState: state)
  | BoundMethodState
      (instance': ref) (methodName: key) (enumerable: bool) (boundMethod: val)
      (bindingTime: nat) (previousState: state)
  | DefinedPropertyState
      (instance': ref) (methodName: key) (enumerable: bool) (boundMethod: val)
      (bindingTime: nat) (propertyDescriptor: PropertyDescriptor) (definitionTime: nat)
      (previousState: state)
  | ErrorTransitionState
      (instance': ref) (methodName: key) (enumerable: bool) (error: string)
      (failedOperation: phase)
  | BindingErrorState
      (instance': ref) (methodName: key) (enumerable: bool) (error: string)
      (errorTime: nat) (failedOperation: phase) (previousState: state)

definition validateInstance :: "ref option \<Rightarrow> exn + unit" where
  "validateInstance i =
     (if i = None then Inl (TypeError ''Instance must be provided'') else Inr ())"

definition validateMethodName :: "key option \<Rightarrow> exn + unit" where
  "validateMethodName k =
     (if k = None \<or> k = Some (KString [])
      then Inl (TypeError ''Method name must be provided'') else Inr ())"

definition validateTarget :: "ref option \<Rightarrow> exn + unit" where
  "validateTarget t =
     (if t = None then Inl (TypeError ''Target must be provided'') else Inr ())"

definition validateMethod :: "world \<Rightarrow> val \<Rightarrow> exn + unit" where
  "validateMethod w m =
     (if \<not> is_function w m then Inl (TypeError ''Method must be a function'') else Inr ())"

text \<open>The constructor of \<open>BaseBindingState\<close>, which every state class runs first.\<close>

definition BaseBindingState_init :: "ref option \<Rightarrow> key option \<Rightarrow> exn + unit" where
  "BaseBindingState_init i k =
     (case validateInstance i of Inl e \<Rightarrow> Inl e | Inr _ \<Rightarrow> validateMethodName k)"

definition new_InitialBindingState :: "world \<Rightarrow> InitialBindingData \<Rightarrow> exn + state" where
  "new_InitialBindingState w d =
     (case BaseBindingState_init (data_instance d) (data_methodName d) of
        Inl e \<Rightarrow> Inl e
      | Inr _ \<Rightarrow>
          (case validateTarget (data_target d) of
             Inl e \<Rightarrow> Inl e
           | Inr _ \<Rightarrow>
               (case validateMethod w (data_method d) of
                  Inl e \<Rightarrow> Inl e
                | Inr _ \<Rightarrow>
                    Inr (InitialBindingState (the (data_instance d)) (the (data_methodName d))
                           (data_enumerable d) (the (data_target d)) (data_method d)))))"

definition new_PrototypeMethodState ::
  "ref \<Rightarrow> key \<Rightarrow> bool \<Rightarrow> ref \<Rightarrow> val \<Rightarrow> state \<Rightarrow> exn + state" where
  "new_PrototypeMethodState i k e t m prev =
     (case BaseBindingState_init (Some i) (Some k) of
        Inl x \<Rightarrow> Inl x
      | Inr _ \<Rightarrow> Inr (PrototypeMethodState i k e t m prev))"

definition new_ExistingBindState :: "ref \<Rightarrow> key \<Rightarrow> bool \<Rightarrow> val \<Rightarrow> state \<Rightarrow> exn + state" where
  "new_ExistingBindState i k e b prev =
     (case BaseBindingState_init (Some i) (Some k) of
        Inl x \<Rightarrow> Inl x
      | Inr _ \<Rightarrow> Inr (ExistingBindState i k e b prev))"

definition new_BoundMethodState ::
  "ref \<Rightarrow> key \<Rightarrow> bool \<Rightarrow> val \<Rightarrow> nat \<Rightarrow> state \<Rightarrow> exn + state" where
  "new_BoundMethodState i k e b bt prev =
     (case BaseBindingState_init (Some i) (Some k) of
        Inl x \<Rightarrow> Inl x
      | Inr _ \<Rightarrow> Inr (BoundMethodState i k e b bt prev))"

definition new_DefinedPropertyState ::
  "ref \<Rightarrow> key \<Rightarrow> bool \<Rightarrow> val \<Rightarrow> nat \<Rightarrow> PropertyDescriptor \<Rightarrow> nat \<Rightarrow> state \<Rightarrow> exn + state" where
  "new_DefinedPropertyState i k e b bt pd dt prev =
     (case BaseBindingState_init (Some i) (Some k) of
        Inl x \<Rightarrow> Inl x
      | Inr _ \<Rightarrow> Inr (DefinedPropertyState i k e b bt pd dt prev))"

definition new_BindingErrorState ::
  "ref \<Rightarrow> key \<Rightarrow> bool \<Rightarrow> string \<Rightarrow> nat \<Rightarrow> phase \<Rightarrow> state \<Rightarrow> exn + state" where
  "new_BindingErrorState i k e msg et ph prev =
     (case BaseBindingState_init (Some i) (Some k) of
        Inl x \<Rightarrow> Inl x
      | Inr _ \<Rightarrow> Inr (BindingErrorState i k e msg et ph prev))"

section \<open>investigators.ts and errors.ts\<close>

definition isPrototypeAccess :: "state \<Rightarrow> bool" where
  "isPrototypeAccess st = (instance' st = target st)"

definition hasExistingBinding :: "world \<Rightarrow> state \<Rightarrow> bool" where
  "hasExistingBinding w st = hasOwnProperty w (instance' st) (methodName st)"

definition shouldBindToPrototype :: "world \<Rightarrow> state \<Rightarrow> bool" where
  "shouldBindToPrototype w st =
     (\<not> (Get w (target st) (KString ''constructor'') = VObject Object_constructor))"

definition assertCanBind :: "world \<Rightarrow> state \<Rightarrow> exn + unit" where
  "assertCanBind w st =
     (if \<not> shouldBindToPrototype w st
      then Inl (BindingError ''Cannot bind: method should not bind to prototype'')
      else Inr ())"

section \<open>workers.ts\<close>

definition retrieveFromPrototype :: "state \<Rightarrow> exn + state" where
  "retrieveFromPrototype st =
     new_PrototypeMethodState (instance' st) (methodName st) (enumerable st) (target st)
       (method' st) st"

definition retrieveFromInstance :: "world \<Rightarrow> state \<Rightarrow> exn + state" where
  "retrieveFromInstance w st =
     new_ExistingBindState (instance' st) (methodName st) (enumerable st)
       (Get w (instance' st) (methodName st)) st"

definition bindToInstance :: "world \<Rightarrow> state \<Rightarrow> (exn + state) \<times> world" where
  "bindToInstance w st =
     (case assertCanBind w st of
        Inl e \<Rightarrow> (Inl e, w)
      | Inr _ \<Rightarrow>
          (case Function_bind w (method' st) (VObject (instance' st)) of
             (Inl e, w1) \<Rightarrow> (Inl e, w1)
           | (Inr b, w1) \<Rightarrow>
               (new_BoundMethodState (instance' st) (methodName st) (enumerable st) b
                  (Date_now w1) st, w1)))"

definition defineOnInstance :: "world \<Rightarrow> state \<Rightarrow> (exn + state) \<times> world" where
  "defineOnInstance w st =
     (let descriptor =
            \<lparr>pd_value = boundMethod st, pd_configurable = True, pd_writable = True,
             pd_enumerable = enumerable st\<rparr>
      in case Object_defineProperty w (instance' st) (methodName st) descriptor of
           (Inl e, w1) \<Rightarrow> (Inl e, w1)
         | (Inr _, w1) \<Rightarrow>
             (new_DefinedPropertyState (instance' st) (methodName st) (enumerable st)
                (boundMethod st) (bindingTime st) descriptor (Date_now w1) st, w1))"

definition createErrorState :: "world \<Rightarrow> state \<Rightarrow> exn + state" where
  "createErrorState w st =
     new_BindingErrorState (instance' st) (methodName st) (enumerable st) (error st)
       (Date_now w) (failedOperation st) st"

section \<open>delegators.ts\<close>

text \<open>\<open>MethodBindingDelegator.process\<close>, with the workers and the investigator that
  \<open>Bind\<close> injects. The body of the \<open>try\<close> is \<open>process_try\<close>; the \<open>catch\<close> turns a
  \<open>BindingError\<close> into an error state of the phase \<open>bind\<close> and throws everything else
  again.\<close>

definition process_try :: "world \<Rightarrow> state \<Rightarrow> (exn + state) \<times> world" where
  "process_try w st =
     (if isPrototypeAccess st then (retrieveFromPrototype st, w)
      else if hasExistingBinding w st then (retrieveFromInstance w st, w)
      else (case bindToInstance w st of
              (Inl e, w1) \<Rightarrow> (Inl e, w1)
            | (Inr boundState, w1) \<Rightarrow> defineOnInstance w1 boundState))"

definition process :: "world \<Rightarrow> state \<Rightarrow> (exn + state) \<times> world" where
  "process w st =
     (case process_try w st of
        (Inl (BindingError msg), w1) \<Rightarrow>
          (createErrorState w1
             (ErrorTransitionState (instance' st) (methodName st) (enumerable st) msg
                Phase_bind), w1)
      | (Inl e, w1) \<Rightarrow> (Inl e, w1)
      | (Inr result, w1) \<Rightarrow> (Inr result, w1))"

section \<open>bind.ts\<close>

text \<open>The descriptor that the decorator receives, of which it reads \<open>value\<close> and
  \<open>enumerable\<close> (which may be absent), and the variables that the getter closes over.\<close>

record MethodDescriptor =
  md_value :: val
  md_enumerable :: "bool option"

record Getter =
  g_target :: "ref option"
  g_propertyKey :: key
  g_descriptor :: MethodDescriptor

text \<open>\<open>b ?? false\<close>\<close>

definition nullish_false :: "bool option \<Rightarrow> bool" where
  "nullish_false b = (case b of Some x \<Rightarrow> x | None \<Rightarrow> False)"

text \<open>The getter, called with \<open>this\<close>.\<close>

definition get :: "Getter \<Rightarrow> ref option \<Rightarrow> world \<Rightarrow> (exn + val) \<times> world" where
  "get g this w =
     (case new_InitialBindingState w
             \<lparr>data_target = g_target g, data_methodName = Some (g_propertyKey g),
              data_method = md_value (g_descriptor g), data_instance = this,
              data_enumerable = nullish_false (md_enumerable (g_descriptor g))\<rparr> of
        Inl e \<Rightarrow> (Inl e, w)
      | Inr st \<Rightarrow>
          (case process w st of
             (Inl e, w1) \<Rightarrow> (Inl e, w1)
           | (Inr result, w1) \<Rightarrow>
               (case result of
                  PrototypeMethodState _ _ _ _ m _ \<Rightarrow> (Inr m, w1)
                | ExistingBindState _ _ _ b _ \<Rightarrow> (Inr b, w1)
                | DefinedPropertyState _ _ _ b _ _ _ _ \<Rightarrow> (Inr b, w1)
                | BindingErrorState _ _ _ msg _ _ _ \<Rightarrow> (Inl (BindError msg), w1)
                | _ \<Rightarrow> (Inl (BindError ''Invalid state returned from delegator''), w1))))"

text \<open>The decorator: the accessor descriptor that replaces the method. A host that
  decorates a class field passes no descriptor at all, and reading \<open>enumerable\<close> of
  \<open>undefined\<close> is a \<open>TypeError\<close>.\<close>

record AccessorDescriptor =
  ad_configurable :: bool
  ad_enumerable :: "bool option"
  ad_get :: Getter

definition Bind :: "ref option \<Rightarrow> key \<Rightarrow> MethodDescriptor option \<Rightarrow> exn + AccessorDescriptor" where
  "Bind tgt propertyKey descriptor =
     (case descriptor of
        None \<Rightarrow> Inl (TypeError ''Cannot read properties of undefined'')
      | Some d \<Rightarrow>
          Inr \<lparr>ad_configurable = True, ad_enumerable = md_enumerable d,
               ad_get = \<lparr>g_target = tgt, g_propertyKey = propertyKey, g_descriptor = d\<rparr>\<rparr>)"

text \<open>The host's part in \<open>class C { @Bind() k = v }; new C()\<close>. The decorators of a class
  are applied while the class is defined, and the decorator of a field gets no descriptor;
  \<open>new C()\<close> is reached only when the definition of the class has returned.\<close>

definition define_class_with_field :: "ref option \<Rightarrow> key \<Rightarrow> exn + AccessorDescriptor" where
  "define_class_with_field tgt k = Bind tgt k None"

definition reaches_instantiation :: "exn + AccessorDescriptor \<Rightarrow> bool" where
  "reaches_instantiation r = (case r of Inl _ \<Rightarrow> False | Inr _ \<Rightarrow> True)"

section \<open>Reading the decorated property\<close>

text \<open>What the lookup of the decorated name finds, from an object up its prototype chain:
  the accessor, on the defining object; a data property, on an object below it, which
  shadows the accessor; or nothing. A chain without a cycle visits every object at most
  once, so the number of objects is fuel enough.\<close>

datatype slot = DataSlot val | AccessorSlot | NoSlot

primrec find_slot :: "nat \<Rightarrow> Getter \<Rightarrow> world \<Rightarrow> ref \<Rightarrow> slot" where
  "find_slot 0 g w r = NoSlot"
| "find_slot (Suc n) g w r =
     (if g_target g = Some r then AccessorSlot
      else case lookup w r of
             None \<Rightarrow> NoSlot
           | Some ob \<Rightarrow>
               (case props ob (g_propertyKey g) of
                  Some d \<Rightarrow> DataSlot (pd_value d)
                | None \<Rightarrow> (case proto ob of None \<Rightarrow> NoSlot | Some p \<Rightarrow> find_slot n g w p)))"

text \<open>\<open>i.m\<close>: the value of the data property that the lookup finds; or the result of the
  getter, called with \<open>this = i\<close>, when the lookup reaches the accessor; or
  \<open>undefined\<close>.\<close>

definition read_property :: "Getter \<Rightarrow> ref \<Rightarrow> world \<Rightarrow> (exn + val) \<times> world" where
  "read_property g i w =
     (case find_slot (length (objects w)) g w i of
        DataSlot v \<Rightarrow> (Inr v, w)
      | AccessorSlot \<Rightarrow> get g (Some i) w
      | NoSlot \<Rightarrow> (Inr VUndefined, w))"

text \<open>The world after \<open>n\<close> reads of \<open>i.m\<close>, and after \<open>n\<close> calls of the getter, whatever
  they return or throw.\<close>

primrec reads :: "Getter \<Rightarrow> ref \<Rightarrow> nat \<Rightarrow> world \<Rightarrow> world" where
  "reads g i 0 w = w"
| "reads g i (Suc n) w = reads g i n (snd (read_property g i w))"

primrec accesses :: "Getter \<Rightarrow> ref option \<Rightarrow> nat \<Rightarrow> world \<Rightarrow> world" where
  "accesses g this 0 w = w"
| "accesses g this (Suc n) w = accesses g this n (snd (get g this w))"

text \<open>The own property table of an object, and the number of getter calls, among \<open>n\<close>
  in a row, that leave the table of \<open>i\<close> different from what they found.\<close>

definition own_table :: "world \<Rightarrow> ref \<Rightarrow> (key \<rightharpoonup> PropertyDescriptor) option" where
  "own_table w i = map_option props (lookup w i)"

primrec writes :: "Getter \<Rightarrow> ref \<Rightarrow> nat \<Rightarrow> world \<Rightarrow> nat" where
  "writes g i 0 w = 0"
| "writes g i (Suc n) w =
     (if own_table (snd (get g (Some i) w)) i = own_table w i then 0 else 1)
     + writes g i n (snd (get g (Some i) w))"

text \<open>An assignment \<open>o[k] = v\<close> by other code, where \<open>o\<close> has the own data property \<open>k\<close>:
  a writable property takes the value and keeps its attributes. Without an own property
  the assignment ends at the accessor, which has no setter, and changes nothing.\<close>

definition assign :: "world \<Rightarrow> ref \<Rightarrow> key \<Rightarrow> val \<Rightarrow> world" where
  "assign w r k v =
     (case lookup w r of
        Some ob \<Rightarrow>
          (case props ob k of
             Some d \<Rightarrow>
               (if pd_writable d
                then w\<lparr>objects := (objects w)[r := ob\<lparr>props := (props ob)(k \<mapsto> d\<lparr>pd_value := v\<rparr>)\<rparr>]\<rparr>
                else w)
           | None \<Rightarrow> w)
      | None \<Rightarrow> w)"

text \<open>A configurable, writable data property; the world after the bind step of an access
  by \<open>i\<close> to a method \<open>m\<close> (whose object is \<open>mo\<close>); and the world after the define step
  that follows it, where \<open>ob\<close> is the object of \<open>i\<close> before.\<close>

definition data_property :: "val \<Rightarrow> bool \<Rightarrow> PropertyDescriptor" where
  "data_property v e =
     \<lparr>pd_value = v, pd_configurable = True, pd_writable = True, pd_enumerable = e\<rparr>"

definition bound_world :: "world \<Rightarrow> obj \<Rightarrow> ref \<Rightarrow> ref \<Rightarrow> world" where
  "bound_world w mo m i =
     w\<lparr>objects := objects w @ [bound_function_object mo m (VObject i)]\<rparr>"

definition defined_world :: "world \<Rightarrow> obj \<Rightarrow> ref \<Rightarrow> ref \<Rightarrow> obj \<Rightarrow> key \<Rightarrow> bool \<Rightarrow> world" where
  "defined_world w mo m i ob k e =
     w\<lparr>objects := (objects w @ [bound_function_object mo m (VObject i)])
        [i := ob\<lparr>props := (props ob)(k \<mapsto> data_property (VObject (length (objects w))) e)\<rparr>]\<rparr>"



section \<open>An example world\<close>

text \<open>
  \<^item> 0: \<open>Object\<close>; 1: \<open>Object.prototype\<close>;
  \<^item> 2: \<open>class Counter\<close>; 3: \<open>Counter.prototype\<close>, on which \<open>increment\<close> is decorated;
  \<^item> 4: the function that \<open>increment\<close> was declared with;
  \<^item> 5: \<open>new Counter()\<close>, with its field \<open>count\<close>;
  \<^item> 6: a frozen instance of \<open>Counter\<close>;
  \<^item> 7: an object literal, used as the target of a decoration applied by hand;
  \<^item> 8: an object that inherits from 7.
\<close>

definition example_world :: world where
  "example_world =
     \<lparr>objects =
        [\<lparr>props = Map.empty, proto = None, extensible = True, callable = Some (Ordinary 0)\<rparr>,
         \<lparr>props = [KString ''constructor'' \<mapsto> data_property (VObject 0) False],
          proto = None, extensible = True, callable = None\<rparr>,
         \<lparr>props = Map.empty, proto = None, extensible = True, callable = Some (Ordinary 1)\<rparr>,
         \<lparr>props = [KString ''constructor'' \<mapsto> data_property (VObject 2) False],
          proto = Some 1, extensible = True, callable = None\<rparr>,
         \<lparr>props = Map.empty, proto = None, extensible = True, callable = Some (Ordinary 2)\<rparr>,
         \<lparr>props = [KString ''count'' \<mapsto> data_property (VNumber 0) True],
          proto = Some 3, extensible = True, callable = None\<rparr>,
         \<lparr>props = Map.empty, proto = Some 3, extensible = False, callable = None\<rparr>,
         \<lparr>props = Map.empty, proto = Some 1, extensible = True, callable = None\<rparr>,
         \<lparr>props = Map.empty, proto = Some 7, extensible = True, callable = None\<rparr>],
      clock = 1000\<rparr>"

definition example_getter :: Getter where
  "example_getter =
     \<lparr>g_target = Some 3, g_propertyKey = KString ''increment'',
      g_descriptor = \<lparr>md_value = VObject 4, md_enumerable = Some False\<rparr>\<rparr>"

definition literal_getter :: Getter where
  "literal_getter =
     \<lparr>g_target = Some 7, g_propertyKey = KString ''increment'',
      g_descriptor = \<lparr>md_value = VObject 4, md_enumerable = Some False\<rparr>\<rparr>"

text \<open>The example world after the first read of \<open>increment\<close> through the instance 5: the
  bound function is the new object 9, and the instance owns \<open>increment\<close>.\<close>

definition example_bound_world :: world where
  "example_bound_world =
     defined_world example_world
       \<lparr>props = Map.empty, proto = None, extensible = True, callable = Some (Ordinary 2)\<rparr> 4 5
       \<lparr>props = [KString ''count'' \<mapsto> data_property (VNumber 0) True],
        proto = Some 3, extensible = True, callable = None\<rparr>
       (KString ''increment'') False"




text \<open>A method decorated under the name of the field \<open>count\<close>, which every instance
  shadows with its own property.\<close>

definition shadowed_getter :: Getter where
  "shadowed_getter =
     \<lparr>g_target = Some 3, g_propertyKey = KString ''count'',
      g_descriptor = \<lparr>md_value = VObject 4, md_enumerable = Some False\<rparr>\<rparr>"

text \<open>A class field decorated as if it were a method: the decorated value is a string.\<close>

definition field_getter :: Getter where
  "field_getter =
     \<lparr>g_target = Some 3, g_propertyKey = KString ''property'',
      g_descriptor = \<lparr>md_value = VString ''not a method'', md_enumerable = Some True\<rparr>\<rparr>"

section \<open>The branches of the resolution\<close>

lemmas validate_defs = validateInstance_def validateMethodName_def validateTarget_def
  validateMethod_def BaseBindingState_init_def

lemma lookup_SomeD: "lookup w r = Some ob \<Longrightarrow> r < length (objects w) \<and> objects w ! r = ob"
  by (simp add: lookup_def split: if_splits)

lemma Get_own:
  assumes "lookup w r = Some ob" and "props ob k = Some d"
  shows "Get w r k = pd_value d"
proof -
  from assms(1) have "r < length (objects w)" by (simp add: lookup_SomeD)
  then obtain n where "length (objects w) = Suc n" by (cases "length (objects w)") auto
  with assms show ?thesis by (simp add: Get_def)
qed

lemma new_InitialBindingState_valid:
  "is_function w m \<Longrightarrow> k \<noteq> KString [] \<Longrightarrow>
   new_InitialBindingState w
     \<lparr>data_target = Some t, data_methodName = Some k, data_method = m,
      data_instance = Some i, data_enumerable = e\<rparr>
   = Inr (InitialBindingState i k e t m)"
  by (simp add: new_InitialBindingState_def validate_defs)

lemma new_InitialBindingState_invalid:
  "data_instance d = None \<or> data_methodName d = None \<or> data_methodName d = Some (KString [])
     \<or> data_target d = None \<or> \<not> is_function w (data_method d) \<Longrightarrow>
   \<exists>msg. new_InitialBindingState w d = Inl (TypeError msg)"
  by (auto simp add: new_InitialBindingState_def validate_defs)

lemma process_prototype:
  "k \<noteq> KString [] \<Longrightarrow>
   process w (InitialBindingState t k e t m) =
     (Inr (PrototypeMethodState t k e t m (InitialBindingState t k e t m)), w)"
  by (simp add: process_def process_try_def isPrototypeAccess_def retrieveFromPrototype_def
      new_PrototypeMethodState_def validate_defs)

lemma process_existing:
  "k \<noteq> KString [] \<Longrightarrow> i \<noteq> t \<Longrightarrow> lookup w i = Some ob \<Longrightarrow> props ob k = Some d \<Longrightarrow>
   process w (InitialBindingState i k e t m) =
     (Inr (ExistingBindState i k e (pd_value d) (InitialBindingState i k e t m)), w)"
  by (simp add: process_def process_try_def isPrototypeAccess_def hasExistingBinding_def
      hasOwnProperty_def retrieveFromInstance_def new_ExistingBindState_def validate_defs Get_own)

lemma process_rejected:
  "k \<noteq> KString [] \<Longrightarrow> i \<noteq> t \<Longrightarrow> \<not> hasOwnProperty w i k \<Longrightarrow>
   Get w t (KString ''constructor'') = VObject Object_constructor \<Longrightarrow>
   process w (InitialBindingState i k e t m) =
     (Inr (BindingErrorState i k e ''Cannot bind: method should not bind to prototype''
            (clock w) Phase_bind
            (ErrorTransitionState i k e ''Cannot bind: method should not bind to prototype''
               Phase_bind)), w)"
  by (simp add: process_def process_try_def isPrototypeAccess_def hasExistingBinding_def
      bindToInstance_def assertCanBind_def shouldBindToPrototype_def createErrorState_def
      new_BindingErrorState_def validate_defs Date_now_def)

lemmas define_defs = process_def process_try_def isPrototypeAccess_def hasExistingBinding_def
  hasOwnProperty_def bindToInstance_def assertCanBind_def shouldBindToPrototype_def
  Function_bind_def new_BoundMethodState_def validate_defs Date_now_def
  defineOnInstance_def Object_defineProperty_def lookup_def nth_append define_allowed_def
  new_DefinedPropertyState_def Let_def data_property_def

lemma process_defined:
  assumes "k \<noteq> KString []" "i \<noteq> t" "lookup w i = Some ob" "props ob k = None"
    "Get w t (KString ''constructor'') \<noteq> VObject Object_constructor"
    "lookup w m = Some mo" "callable mo \<noteq> None" "extensible ob"
  shows "process w (InitialBindingState i k e t (VObject m)) =
     (Inr (DefinedPropertyState i k e (VObject (length (objects w))) (clock w)
            (data_property (VObject (length (objects w))) e) (clock w)
            (BoundMethodState i k e (VObject (length (objects w))) (clock w)
               (InitialBindingState i k e t (VObject m)))),
      defined_world w mo m i ob k e)"
  using assms lookup_SomeD [OF assms(3)]
  by (simp add: define_defs defined_world_def)

lemma process_define_failed:
  assumes "k \<noteq> KString []" "i \<noteq> t" "lookup w i = Some ob" "props ob k = None"
    "Get w t (KString ''constructor'') \<noteq> VObject Object_constructor"
    "lookup w m = Some mo" "callable mo \<noteq> None" "\<not> extensible ob"
  shows "process w (InitialBindingState i k e t (VObject m)) =
     (Inl (TypeError ''Cannot define property''), bound_world w mo m i)"
  using assms lookup_SomeD [OF assms(3)]
  by (simp add: define_defs bound_world_def)

text \<open>The getter, branch by branch. The request of a getter \<open>g\<close> is valid when its key is
  not the empty string and the decorated value is a function.\<close>

lemma Bind_closure:
  "Bind tgt k (Some d) = Inr acc \<Longrightarrow>
   ad_configurable acc \<and> ad_enumerable acc = md_enumerable d \<and>
   ad_get acc = \<lparr>g_target = tgt, g_propertyKey = k, g_descriptor = d\<rparr>"
  by (auto simp add: Bind_def)

lemma get_unfold:
  assumes "g_target g = Some t" "g_propertyKey g \<noteq> KString []"
    "is_function w (md_value (g_descriptor g))"
  shows "get g (Some i) w =
    (case process w (InitialBindingState i (g_propertyKey g)
                       (nullish_false (md_enumerable (g_descriptor g))) t
                       (md_value (g_descriptor g))) of
       (Inl e, w1) \<Rightarrow> (Inl e, w1)
     | (Inr result, w1) \<Rightarrow>
         (case result of
            PrototypeMethodState _ _ _ _ m _ \<Rightarrow> (Inr m, w1)
          | ExistingBindState _ _ _ b _ \<Rightarrow> (Inr b, w1)
          | DefinedPropertyState _ _ _ b _ _ _ _ \<Rightarrow> (Inr b, w1)
          | BindingErrorState _ _ _ msg _ _ _ \<Rightarrow> (Inl (BindError msg), w1)
          | _ \<Rightarrow> (Inl (BindError ''Invalid state returned from delegator''), w1)))"
  using assms by (simp add: get_def new_InitialBindingState_valid)

lemma get_invalid:
  assumes "this = None \<or> g_propertyKey g = KString [] \<or> g_target g = None
     \<or> \<not> is_function w (md_value (g_descriptor g))"
  shows "\<exists>msg. get g this w = (Inl (TypeError msg), w)"
proof -
  let ?d = "\<lparr>data_target = g_target g, data_methodName = Some (g_propertyKey g),
              data_method = md_value (g_descriptor g), data_instance = this,
              data_enumerable = nullish_false (md_enumerable (g_descriptor g))\<rparr>"
  from assms have "\<exists>msg. new_InitialBindingState w ?d = Inl (TypeError msg)"
    by (intro new_InitialBindingState_invalid) auto
  then show ?thesis by (auto simp add: get_def)
qed

lemma get_prototype:
  assumes "g_target g = Some t" "g_propertyKey g \<noteq> KString []"
    "is_function w (md_value (g_descriptor g))"
  shows "get g (Some t) w = (Inr (md_value (g_descriptor g)), w)"
  using assms by (simp add: get_unfold process_prototype)

lemma get_existing:
  assumes "g_target g = Some t" "g_propertyKey g \<noteq> KString []"
    "is_function w (md_value (g_descriptor g))"
    "i \<noteq> t" "lookup w i = Some ob" "props ob (g_propertyKey g) = Some d"
  shows "get g (Some i) w = (Inr (pd_value d), w)"
  using assms by (simp add: get_unfold process_existing)

lemma get_rejected:
  assumes "g_target g = Some t" "g_propertyKey g \<noteq> KString []"
    "is_function w (md_value (g_descriptor g))"
    "i \<noteq> t" "\<not> hasOwnProperty w i (g_propertyKey g)"
    "Get w t (KString ''constructor'') = VObject Object_constructor"
  shows "get g (Some i) w =
    (Inl (BindError ''Cannot bind: method should not bind to prototype''), w)"
  using assms by (simp add: get_unfold process_rejected)

lemma is_function_VObject:
  "is_function w v \<Longrightarrow> \<exists>m mo. v = VObject m \<and> lookup w m = Some mo \<and> callable mo \<noteq> None"
  by (auto simp add: is_function_def split: val.splits option.splits)

lemma get_defined:
  assumes "g_target g = Some t" "g_propertyKey g \<noteq> KString []"
    "md_value (g_descriptor g) = VObject m" "lookup w m = Some mo" "callable mo \<noteq> None"
    "i \<noteq> t" "lookup w i = Some ob" "props ob (g_propertyKey g) = None"
    "Get w t (KString ''constructor'') \<noteq> VObject Object_constructor" "extensible ob"
  shows "get g (Some i) w =
    (Inr (VObject (length (objects w))),
     defined_world w mo m i ob (g_propertyKey g) (nullish_false (md_enumerable (g_descriptor g))))"
proof -
  have "is_function w (md_value (g_descriptor g))"
    using assms by (simp add: is_function_def)
  with assms show ?thesis by (simp add: get_unfold process_defined)
qed

lemma get_define_failed:
  assumes "g_target g = Some t" "g_propertyKey g \<noteq> KString []"
    "md_value (g_descriptor g) = VObject m" "lookup w m = Some mo" "callable mo \<noteq> None"
    "i \<noteq> t" "lookup w i = Some ob" "props ob (g_propertyKey g) = None"
    "Get w t (KString ''constructor'') \<noteq> VObject Object_constructor" "\<not> extensible ob"
  shows "get g (Some i) w = (Inl (TypeError ''Cannot define property''), bound_world w mo m i)"
proof -
  have "is_function w (md_value (g_descriptor g))"
    using assms by (simp add: is_function_def)
  with assms show ?thesis by (simp add: get_unfold process_define_failed)
qed

lemma process_error_state_phase:
  assumes "process w st = (Inr r, w')" and "is_BindingErrorState r"
  shows "failedOperation r = Phase_bind"
  using assms
  by (auto simp add: process_def process_try_def retrieveFromPrototype_def
      retrieveFromInstance_def bindToInstance_def defineOnInstance_def createErrorState_def
      new_PrototypeMethodState_def new_ExistingBindState_def new_BoundMethodState_def
      new_DefinedPropertyState_def new_BindingErrorState_def Let_def
      split: if_splits sum.splits prod.splits exn.splits)

lemma get_allocated_cases [consumes 1, case_names invalid prototype existing rejected defined define_failed]:
  assumes "lookup w i = Some ob"
  obtains
    (invalid) msg where "get g (Some i) w = (Inl (TypeError msg), w)"
  | (prototype) "g_target g = Some i" "g_propertyKey g \<noteq> KString []"
      "is_function w (md_value (g_descriptor g))"
      "get g (Some i) w = (Inr (md_value (g_descriptor g)), w)"
  | (existing) t d where "g_target g = Some t" "i \<noteq> t" "g_propertyKey g \<noteq> KString []"
      "is_function w (md_value (g_descriptor g))"
      "props ob (g_propertyKey g) = Some d" "get g (Some i) w = (Inr (pd_value d), w)"
  | (rejected) t where "g_target g = Some t" "i \<noteq> t" "props ob (g_propertyKey g) = None"
      "Get w t (KString ''constructor'') = VObject Object_constructor"
      "get g (Some i) w =
         (Inl (BindError ''Cannot bind: method should not bind to prototype''), w)"
  | (defined) t m mo where "g_target g = Some t" "i \<noteq> t" "g_propertyKey g \<noteq> KString []"
      "props ob (g_propertyKey g) = None"
      "md_value (g_descriptor g) = VObject m" "lookup w m = Some mo" "callable mo \<noteq> None"
      "extensible ob"
      "get g (Some i) w =
         (Inr (VObject (length (objects w))),
          defined_world w mo m i ob (g_propertyKey g)
            (nullish_false (md_enumerable (g_descriptor g))))"
  | (define_failed) t m mo where "g_target g = Some t" "i \<noteq> t"
      "props ob (g_propertyKey g) = None"
      "md_value (g_descriptor g) = VObject m" "lookup w m = Some mo" "callable mo \<noteq> None"
      "\<not> extensible ob"
      "Get w t (KString ''constructor'') \<noteq> VObject Object_constructor"
      "get g (Some i) w = (Inl (TypeError ''Cannot define property''), bound_world w mo m i)"
proof (cases "g_propertyKey g = KString [] \<or> g_target g = None
     \<or> \<not> is_function w (md_value (g_descriptor g))")
  case True
  then obtain msg where "get g (Some i) w = (Inl (TypeError msg), w)"
    using get_invalid [of "Some i" g w] by auto
  then show ?thesis by (rule invalid)
next
  case False
  then obtain t where t: "g_target g = Some t" by auto
  from False have k: "g_propertyKey g \<noteq> KString []"
    and f: "is_function w (md_value (g_descriptor g))" by auto
  from is_function_VObject [OF f] obtain m mo where
    m: "md_value (g_descriptor g) = VObject m" "lookup w m = Some mo" "callable mo \<noteq> None"
    by auto
  show ?thesis
  proof (cases "i = t")
    case True
    with t k f show ?thesis using get_prototype [OF t k f] by (intro prototype) auto
  next
    case it: False
    show ?thesis
    proof (cases "props ob (g_propertyKey g)")
      case (Some d)
      from get_existing [OF t k f it assms Some] show ?thesis
        using t it k f Some by (intro existing)
    next
      case None
      then have no: "\<not> hasOwnProperty w i (g_propertyKey g)"
        using assms by (simp add: hasOwnProperty_def)
      show ?thesis
      proof (cases "Get w t (KString ''constructor'') = VObject Object_constructor")
        case True
        from get_rejected [OF t k f it no True] show ?thesis
          using t it None True by (intro rejected)
      next
        case el: False
        show ?thesis
        proof (cases "extensible ob")
          case True
          from get_defined [OF t k m it assms None el True] show ?thesis
            using t it k None m True by (intro defined)
        next
          case False
          from get_define_failed [OF t k m it assms None el False] show ?thesis
            using t it None m False el by (intro define_failed)
        qed
      qed
    qed
  qed
qed

lemma lookup_bound_world:
  "r < length (objects w) \<Longrightarrow> lookup (bound_world w mo m i) r = lookup w r"
  by (simp add: lookup_def bound_world_def nth_append)

lemma lookup_defined_world_instance:
  "i < length (objects w) \<Longrightarrow>
   lookup (defined_world w mo m i ob k e) i =
     Some (ob\<lparr>props := (props ob)(k \<mapsto> data_property (VObject (length (objects w))) e)\<rparr>)"
  by (simp add: lookup_def defined_world_def)

lemma lookup_defined_world_other:
  "r < length (objects w) \<Longrightarrow> r \<noteq> i \<Longrightarrow>
   lookup (defined_world w mo m i ob k e) r = lookup w r"
  by (simp add: lookup_def defined_world_def nth_append)


section \<open>What an access leaves behind\<close>

lemma is_function_assign: "is_function (assign w r k v) x = is_function w x"
  by (auto simp add: is_function_def assign_def lookup_def nth_list_update
      split: val.splits option.splits)

lemma is_function_bound_world:
  "is_function w v \<Longrightarrow> is_function (bound_world w mo m i) v"
  by (auto simp add: is_function_def lookup_def bound_world_def nth_append
      split: val.splits if_splits)

lemma is_function_defined_world:
  assumes "lookup w i = Some ob" and "is_function w v"
  shows "is_function (defined_world w mo m i ob k e) v"
proof -
  from assms(1) have i: "i < length (objects w)" "objects w ! i = ob"
    by (simp_all add: lookup_SomeD)
  from assms(2) obtain r ro where r: "v = VObject r" "lookup w r = Some ro" "callable ro \<noteq> None"
    using is_function_VObject by blast
  then have rl: "r < length (objects w)" "objects w ! r = ro" by (simp_all add: lookup_SomeD)
  show ?thesis
  proof (cases "r = i")
    case True
    with r i rl show ?thesis
      by (simp add: is_function_def lookup_defined_world_instance)
  next
    case False
    with r rl show ?thesis
      by (simp add: is_function_def lookup_defined_world_other)
  qed
qed

text \<open>An access that returns leaves a world in which the same access returns the same
  value and changes nothing.\<close>

lemma get_success_fixpoint:
  assumes "lookup w i = Some ob" and "get g (Some i) w = (Inr v, w')"
  shows "get g (Some i) w' = (Inr v, w')"
  using assms(1)
proof (cases rule: get_allocated_cases [where g = g])
  case (defined t m mo)
  let ?k = "g_propertyKey g" and ?e = "nullish_false (md_enumerable (g_descriptor g))"
  let ?w = "defined_world w mo m i ob ?k ?e"
  from assms(1) have i: "i < length (objects w)" by (simp add: lookup_SomeD)
  from defined assms(2) have v: "v = VObject (length (objects w))" and w': "w' = ?w" by auto
  have f: "is_function w (md_value (g_descriptor g))"
    using defined by (simp add: is_function_def)
  have "get g (Some i) ?w =
      (Inr (pd_value (data_property (VObject (length (objects w))) ?e)), ?w)"
    by (rule get_existing [OF defined(1) defined(3) is_function_defined_world [OF assms(1) f]
          defined(2) lookup_defined_world_instance [OF i]]) simp
  then show ?thesis by (simp add: v w' data_property_def)
qed (use assms in auto)

lemma accesses_fixpoint:
  "get g this w = (r, w) \<Longrightarrow> accesses g this n w = w"
  by (induction n) simp_all

lemma find_slot_step:
  "0 < n \<Longrightarrow>
   find_slot n g w r =
     (if g_target g = Some r then AccessorSlot
      else case lookup w r of
             None \<Rightarrow> NoSlot
           | Some ob \<Rightarrow>
               (case props ob (g_propertyKey g) of
                  Some d \<Rightarrow> DataSlot (pd_value d)
                | None \<Rightarrow>
                    (case proto ob of None \<Rightarrow> NoSlot | Some p \<Rightarrow> find_slot (n - 1) g w p)))"
  by (cases n) (auto split: option.splits)

lemma find_slot_own:
  assumes "lookup w i = Some ob" and "props ob (g_propertyKey g) = Some d"
    and "g_target g \<noteq> Some i"
  shows "find_slot (length (objects w)) g w i = DataSlot (pd_value d)"
proof -
  from assms(1) have "i < length (objects w)" by (simp add: lookup_SomeD)
  then have "0 < length (objects w)" by arith
  with assms show ?thesis by (simp add: find_slot_step)
qed



lemma read_property_defined_world:
  assumes "lookup w i = Some ob" and "g_target g \<noteq> Some i"
  shows "read_property g i (defined_world w mo m i ob (g_propertyKey g) e) =
    (Inr (VObject (length (objects w))), defined_world w mo m i ob (g_propertyKey g) e)"
proof -
  let ?w = "defined_world w mo m i ob (g_propertyKey g) e"
  from assms(1) have i: "i < length (objects w)" by (simp add: lookup_SomeD)
  have "find_slot (length (objects ?w)) g ?w i =
      DataSlot (pd_value (data_property (VObject (length (objects w))) e))"
    by (rule find_slot_own [OF lookup_defined_world_instance [OF i] _ assms(2)]) simp
  then show ?thesis by (simp add: read_property_def data_property_def)
qed

lemma read_property_success_fixpoint:
  assumes "lookup w i = Some ob" and "read_property g i w = (Inr v, w')"
  shows "read_property g i w' = (Inr v, w')"
proof (cases "w' = w")
  case True
  with assms(2) show ?thesis by simp
next
  case False
  with assms(2) have a: "find_slot (length (objects w)) g w i = AccessorSlot"
    and g: "get g (Some i) w = (Inr v, w')"
    by (auto simp add: read_property_def split: slot.splits)
  from assms(1) show ?thesis
  proof (cases rule: get_allocated_cases [where g = g])
    case (defined t m mo)
    with g have "v = VObject (length (objects w))"
      "w' = defined_world w mo m i ob (g_propertyKey g)
              (nullish_false (md_enumerable (g_descriptor g)))"
      by auto
    moreover from defined have "g_target g \<noteq> Some i" by auto
    ultimately show ?thesis
      using read_property_defined_world [OF assms(1)] by simp
  qed (use g False in auto)
qed

lemma reads_fixpoint:
  "read_property g i w = (r, w) \<Longrightarrow> reads g i n w = w"
  by (induction n) simp_all

lemma own_table_bound_world:
  "lookup w i = Some ob \<Longrightarrow> own_table (bound_world w mo m j) i = own_table w i"
  by (simp add: own_table_def lookup_bound_world lookup_SomeD)

text \<open>When the receiver owns the name, or is the defining object, the access changes
  nothing.\<close>

lemma get_settled:
  assumes "lookup w i = Some ob"
    and "props ob (g_propertyKey g) \<noteq> None \<or> g_target g = Some i"
  shows "snd (get g (Some i) w) = w"
  using assms(1)
  by (cases rule: get_allocated_cases [where g = g]) (use assms(2) in auto)

lemma writes_settled:
  assumes "lookup w i = Some ob"
    and "props ob (g_propertyKey g) \<noteq> None \<or> g_target g = Some i"
  shows "writes g i n w = 0"
  using get_settled [OF assms] by (induction n) simp_all

lemma get_success_settled:
  assumes "lookup w i = Some ob" and "get g (Some i) w = (Inr v, w')"
  shows "\<exists>ob'. lookup w' i = Some ob' \<and>
           (props ob' (g_propertyKey g) \<noteq> None \<or> g_target g = Some i)"
  using assms(1)
proof (cases rule: get_allocated_cases [where g = g])
  case (defined t m mo)
  from assms(1) have "i < length (objects w)" by (simp add: lookup_SomeD)
  with defined assms(2) show ?thesis by (auto simp add: lookup_defined_world_instance)
qed (use assms in auto)

lemma writes_at_most_once:
  "lookup w i = Some ob \<Longrightarrow> writes g i n w \<le> 1"
proof (induction n arbitrary: w)
  case 0
  show ?case by simp
next
  case (Suc n)
  show ?case
  proof (cases "props ob (g_propertyKey g) \<noteq> None \<or> g_target g = Some i")
    case True
    with Suc.prems show ?thesis by (simp only: writes_settled)
  next
    case fresh: False
    from Suc.prems show ?thesis
    proof (cases rule: get_allocated_cases [where g = g])
      case (invalid msg)
      with Suc.IH [OF Suc.prems] show ?thesis by simp
    next
      case prototype
      with fresh show ?thesis by simp
    next
      case (existing t d)
      with fresh show ?thesis by simp
    next
      case (rejected t)
      with Suc.IH [OF Suc.prems] show ?thesis by simp
    next
      case (defined t m mo)
      let ?w = "snd (get g (Some i) w)"
      from get_success_settled [OF Suc.prems, of g] defined(9)
      obtain ob' where "lookup ?w i = Some ob'"
        "props ob' (g_propertyKey g) \<noteq> None \<or> g_target g = Some i"
        by auto
      then have "writes g i n ?w = 0" by (rule writes_settled)
      then show ?thesis by simp
    next
      case (define_failed t m mo)
      have l: "lookup (bound_world w mo m i) i = Some ob"
        using Suc.prems by (simp add: lookup_bound_world lookup_SomeD)
      from Suc.IH [OF l] define_failed(9) Suc.prems show ?thesis
        by (simp add: own_table_bound_world)
    qed
  qed
qed







section \<open>The example world, evaluated\<close>

lemmas example_defs = example_world_def example_getter_def literal_getter_def shadowed_getter_def
  lookup_def is_function_def data_property_def

lemma example_decoration:
  "Bind (Some 3) (KString ''increment'') (Some \<lparr>md_value = VObject 4, md_enumerable = Some False\<rparr>)
   = Inr \<lparr>ad_configurable = True, ad_enumerable = Some False, ad_get = example_getter\<rparr>"
  by (simp add: Bind_def example_getter_def)

lemma example_length: "length (objects example_world) = 9"
  by (simp add: example_world_def)

lemma example_eligible:
  "Get example_world 3 (KString ''constructor'') = VObject 2"
  by (simp add: Get_def example_defs eval_nat_numeral)

lemma literal_ineligible:
  "Get example_world 7 (KString ''constructor'') = VObject Object_constructor"
  by (simp add: Get_def example_defs eval_nat_numeral Object_constructor_def)

lemma example_instances_fresh:
  "\<not> hasOwnProperty example_world 5 (KString ''increment'')"
  "\<not> hasOwnProperty example_world 6 (KString ''increment'')"
  "\<not> hasOwnProperty example_world 8 (KString ''increment'')"
  by (simp_all add: hasOwnProperty_def example_defs)

lemma getter_simps:
  "g_target example_getter = Some 3"
  "g_propertyKey example_getter = KString ''increment''"
  "g_descriptor example_getter = \<lparr>md_value = VObject 4, md_enumerable = Some False\<rparr>"
  "g_target literal_getter = Some 7"
  "g_propertyKey literal_getter = KString ''increment''"
  "g_descriptor literal_getter = \<lparr>md_value = VObject 4, md_enumerable = Some False\<rparr>"
  "g_target shadowed_getter = Some 3"
  "g_propertyKey shadowed_getter = KString ''count''"
  "g_descriptor shadowed_getter = \<lparr>md_value = VObject 4, md_enumerable = Some False\<rparr>"
  by (simp_all add: example_getter_def literal_getter_def shadowed_getter_def)

lemma example_lookup:
  "lookup example_world 4 =
     Some \<lparr>props = Map.empty, proto = None, extensible = True, callable = Some (Ordinary 2)\<rparr>"
  "lookup example_world 5 =
     Some \<lparr>props = [KString ''count'' \<mapsto> data_property (VNumber 0) True],
           proto = Some 3, extensible = True, callable = None\<rparr>"
  "lookup example_world 6 =
     Some \<lparr>props = Map.empty, proto = Some 3, extensible = False, callable = None\<rparr>"
  by (simp_all add: example_world_def lookup_def)

lemma example_function: "is_function example_world (VObject 4)"
  by (simp add: is_function_def example_lookup)

lemma example_frozen_access:
  "get example_getter (Some 6) example_world =
     (Inl (TypeError ''Cannot define property''),
      bound_world example_world
        \<lparr>props = Map.empty, proto = None, extensible = True, callable = Some (Ordinary 2)\<rparr> 4 6)"
  by (rule get_define_failed [where t = 3 and ob = "\<lparr>props = Map.empty, proto = Some 3, extensible = False, callable = None\<rparr>"])
     (simp_all add: example_eligible Object_constructor_def, simp_all add: example_defs)

lemma example_frozen_process:
  "process example_world (InitialBindingState 6 (KString ''increment'') False 3 (VObject 4)) =
     (Inl (TypeError ''Cannot define property''),
      bound_world example_world
        \<lparr>props = Map.empty, proto = None, extensible = True, callable = Some (Ordinary 2)\<rparr> 4 6)"
  by (rule process_define_failed [where ob = "\<lparr>props = Map.empty, proto = Some 3, extensible = False, callable = None\<rparr>"])
     (simp_all add: example_eligible Object_constructor_def, simp_all add: example_defs)

lemma example_first_access:
  "get example_getter (Some 5) example_world = (Inr (VObject 9), example_bound_world)"
proof -
  have "get example_getter (Some 5) example_world =
      (Inr (VObject (length (objects example_world))),
       defined_world example_world
         \<lparr>props = Map.empty, proto = None, extensible = True, callable = Some (Ordinary 2)\<rparr> 4 5
         \<lparr>props = [KString ''count'' \<mapsto> data_property (VNumber 0) True],
          proto = Some 3, extensible = True, callable = None\<rparr>
         (g_propertyKey example_getter)
         (nullish_false (md_enumerable (g_descriptor example_getter))))"
    by (rule get_defined [where t = 3])
       (simp_all add: getter_simps example_lookup example_eligible Object_constructor_def)
  then show ?thesis
    by (simp add: example_bound_world_def getter_simps nullish_false_def example_world_def)
qed

lemma example_first_read:
  "read_property example_getter 5 example_world = (Inr (VObject 9), example_bound_world)"
  by (simp add: read_property_def example_length find_slot_step example_lookup getter_simps
      example_first_access)










section \<open>The claims\<close>




text \<open>
  C2 (identity stability). Once a read of \<open>i.m\<close> has returned a value, every later read,
  after any number of reads, returns the same value; the same holds for calls of the
  getter with \<open>this = i\<close>.
\<close>

theorem C2_identity_stability:
  assumes "lookup w i = Some ob"
  shows "(read_property g i w = (Inr v, w') \<longrightarrow>
           (\<forall>n. read_property g i (reads g i n w') = (Inr v, reads g i n w')))
       \<and> (get g (Some i) w = (Inr v, w') \<longrightarrow>
           (\<forall>n. get g (Some i) (accesses g (Some i) n w') = (Inr v, accesses g (Some i) n w')))"
proof (intro conjI impI allI)
  fix n
  assume "read_property g i w = (Inr v, w')"
  then have f: "read_property g i w' = (Inr v, w')"
    by (rule read_property_success_fixpoint [OF assms])
  then have "reads g i n w' = w'" by (rule reads_fixpoint)
  with f show "read_property g i (reads g i n w') = (Inr v, reads g i n w')" by simp
next
  fix n
  assume "get g (Some i) w = (Inr v, w')"
  then have f: "get g (Some i) w' = (Inr v, w')"
    by (rule get_success_fixpoint [OF assms])
  then have "accesses g (Some i) n w' = w'" by (rule accesses_fixpoint)
  with f show "get g (Some i) (accesses g (Some i) n w') = (Inr v, accesses g (Some i) n w')"
    by simp
qed

theorem C2_identity_stability_witness:
  "(\<forall>n. read_property example_getter 5 (reads example_getter 5 n example_bound_world)
         = (Inr (VObject 9), reads example_getter 5 n example_bound_world))
   \<and> (\<forall>n. get example_getter (Some 5) (accesses example_getter (Some 5) n example_bound_world)
         = (Inr (VObject 9), accesses example_getter (Some 5) n example_bound_world))"
  using C2_identity_stability [OF example_lookup(2), of example_getter "VObject 9"
      example_bound_world]
  by (simp add: example_first_read example_first_access)

text \<open>
  C3 (prototype purity). For a decorated method (a function, under a name that is not
  empty), an access whose receiver is the defining object itself returns the original
  function, the one the method was declared with, and leaves the whole world as it was:
  no own property of the defining object, or of any object, is written.
\<close>

theorem C3_prototype_purity:
  assumes "g_target g = Some t" and "g_propertyKey g \<noteq> KString []"
    and "is_function w (md_value (g_descriptor g))"
  shows "get g (Some t) w = (Inr (md_value (g_descriptor g)), w)"
proof -
  have "process w (InitialBindingState t (g_propertyKey g)
                     (nullish_false (md_enumerable (g_descriptor g))) t
                     (md_value (g_descriptor g)))
      = (Inr (PrototypeMethodState t (g_propertyKey g)
                (nullish_false (md_enumerable (g_descriptor g))) t (md_value (g_descriptor g))
                (InitialBindingState t (g_propertyKey g)
                   (nullish_false (md_enumerable (g_descriptor g))) t
                   (md_value (g_descriptor g)))), w)"
    using assms(2) by (rule process_prototype)
  then show ?thesis by (simp add: get_unfold [OF assms])
qed

theorem C3_prototype_purity_witness:
  "get example_getter (Some 3) example_world = (Inr (VObject 4), example_world)"
  using C3_prototype_purity [of example_getter 3 example_world]
  by (simp add: example_defs)




text \<open>
  C5 (write once). Among any number of accesses in a row through an object \<open>i\<close>, at most
  one leaves the own property table of \<open>i\<close> different from what it found; and after an
  access that returned, no later access changes the table.
\<close>

theorem C5_write_once:
  assumes "lookup w i = Some ob"
  shows "writes g i n w \<le> 1
       \<and> (\<forall>v w'. get g (Some i) w = (Inr v, w') \<longrightarrow> writes g i n w' = 0)"
proof (intro conjI allI impI)
  show "writes g i n w \<le> 1" using assms by (rule writes_at_most_once)
next
  fix v w'
  assume "get g (Some i) w = (Inr v, w')"
  from get_success_settled [OF assms this] obtain ob' where
    "lookup w' i = Some ob'" "props ob' (g_propertyKey g) \<noteq> None \<or> g_target g = Some i"
    by auto
  then show "writes g i n w' = 0" by (rule writes_settled)
qed

theorem C5_write_once_witness:
  "writes example_getter 5 3 example_world = 1
   \<and> writes example_getter 5 3 example_bound_world = 0"
proof -
  have a: "own_table example_bound_world 5 \<noteq> own_table example_world 5"
    by (simp add: own_table_def example_bound_world_def lookup_defined_world_instance
        example_lookup example_length fun_upd_idem_iff)
  have b: "writes example_getter 5 n example_bound_world = 0" for n
    using C5_write_once [OF example_lookup(2), of example_getter n]
    by (simp add: example_first_access)
  have three: "(3::nat) = Suc 2" by simp
  have "writes example_getter 5 3 example_world = 1"
    unfolding three writes.simps example_first_access snd_conv
    using a b [of 2] by simp
  with b [of 3] show ?thesis by simp
qed



text \<open>
  C7, as stated, fails: when the define step cannot install the property on a frozen
  instance, the getter throws the host's \<open>TypeError\<close>, not the dedicated \<open>BindError\<close>, and
  \<open>process\<close> throws instead of returning an error state.
\<close>

theorem C7_define_failure_counterexample:
  "fst (get example_getter (Some 6) example_world) = Inl (TypeError ''Cannot define property'')
   \<and> fst (process example_world
             (InitialBindingState 6 (KString ''increment'') False 3 (VObject 4)))
       = Inl (TypeError ''Cannot define property'')"
  by (simp add: example_frozen_access example_frozen_process)

text \<open>
  C7, amended. A rejection by the eligibility guard leaves the getter as the dedicated
  \<open>BindError\<close> with the message of the guard; every error state that \<open>process\<close> returns
  names the phase \<open>bind\<close>; and a failure of the define step on an instance that is not
  extensible leaves the getter as a \<open>TypeError\<close>.
\<close>

theorem C7_binding_failures:
  "(g_target g = Some t \<and> g_propertyKey g \<noteq> KString []
      \<and> is_function w (md_value (g_descriptor g)) \<and> i \<noteq> t
      \<and> \<not> hasOwnProperty w i (g_propertyKey g)
      \<and> Get w t (KString ''constructor'') = VObject Object_constructor
    \<longrightarrow> get g (Some i) w =
          (Inl (BindError ''Cannot bind: method should not bind to prototype''), w))
   \<and> (\<forall>r w'. process w st = (Inr r, w') \<longrightarrow> is_BindingErrorState r
          \<longrightarrow> failedOperation r = Phase_bind)
   \<and> (g_target g = Some t \<and> g_propertyKey g \<noteq> KString []
      \<and> is_function w (md_value (g_descriptor g)) \<and> i \<noteq> t
      \<and> lookup w i = Some ob \<and> props ob (g_propertyKey g) = None \<and> \<not> extensible ob
      \<and> Get w t (KString ''constructor'') \<noteq> VObject Object_constructor
    \<longrightarrow> fst (get g (Some i) w) = Inl (TypeError ''Cannot define property''))"
proof (intro conjI allI impI)
  assume "g_target g = Some t \<and> g_propertyKey g \<noteq> KString []
      \<and> is_function w (md_value (g_descriptor g)) \<and> i \<noteq> t
      \<and> \<not> hasOwnProperty w i (g_propertyKey g)
      \<and> Get w t (KString ''constructor'') = VObject Object_constructor"
  then show "get g (Some i) w =
          (Inl (BindError ''Cannot bind: method should not bind to prototype''), w)"
    by (simp add: get_rejected)
next
  fix r w'
  assume "process w st = (Inr r, w')" "is_BindingErrorState r"
  then show "failedOperation r = Phase_bind" by (rule process_error_state_phase)
next
  assume a: "g_target g = Some t \<and> g_propertyKey g \<noteq> KString []
      \<and> is_function w (md_value (g_descriptor g)) \<and> i \<noteq> t
      \<and> lookup w i = Some ob \<and> props ob (g_propertyKey g) = None \<and> \<not> extensible ob
      \<and> Get w t (KString ''constructor'') \<noteq> VObject Object_constructor"
  then obtain m mo where
    m: "md_value (g_descriptor g) = VObject m" "lookup w m = Some mo" "callable mo \<noteq> None"
    using is_function_VObject by blast
  from a m show "fst (get g (Some i) w) = Inl (TypeError ''Cannot define property'')"
    by (simp add: get_define_failed [where t = t and ob = ob and m = m and mo = mo])
qed

theorem C7_binding_failures_witness:
  "get literal_getter (Some 8) example_world =
     (Inl (BindError ''Cannot bind: method should not bind to prototype''), example_world)
   \<and> fst (get example_getter (Some 6) example_world) = Inl (TypeError ''Cannot define property'')"
  using C7_binding_failures [of literal_getter 7 example_world 8]
    C7_binding_failures [of example_getter 3 example_world 6 _
       "\<lparr>props = Map.empty, proto = Some 3, extensible = False, callable = None\<rparr>"]
  by (simp add: example_eligible literal_ineligible Object_constructor_def
      example_instances_fresh getter_simps example_function example_lookup)

text \<open>
  C8, as stated, fails in its last part. For a decorated class field the type error is
  not raised at instantiation: the decorator throws it while the class is defined, and no
  instance is ever constructed.
\<close>

theorem C8_field_counterexample:
  "define_class_with_field (Some 3) (KString ''property'')
     = Inl (TypeError ''Cannot read properties of undefined'')
   \<and> \<not> reaches_instantiation (define_class_with_field (Some 3) (KString ''property''))"
  by (simp add: define_class_with_field_def reaches_instantiation_def Bind_def)

text \<open>
  C8, amended. The constructor of \<open>InitialBindingState\<close> returns a \<open>TypeError\<close> exactly
  when the instance, the method name or the target is missing, the method name is the
  empty string, or the method is not a function; it throws nothing but a \<open>TypeError\<close>; the
  message names the first check that fails. Decorating a class field raises a
  \<open>TypeError\<close> while the class is defined, before any instantiation; and where a decorated
  value that is not a function does come with a descriptor, every call of the getter
  throws a \<open>TypeError\<close> and changes nothing.
\<close>

theorem C8_validated_at_construction:
  "((\<exists>msg. new_InitialBindingState w d = Inl (TypeError msg))
      \<longleftrightarrow> (data_instance d = None \<or> data_methodName d = None
           \<or> data_methodName d = Some (KString []) \<or> data_target d = None
           \<or> \<not> is_function w (data_method d)))
   \<and> (\<forall>x. new_InitialBindingState w d = Inl x \<longrightarrow> (\<exists>msg. x = TypeError msg))
   \<and> (data_instance d = None
        \<longrightarrow> new_InitialBindingState w d = Inl (TypeError ''Instance must be provided''))
   \<and> (data_instance d \<noteq> None
        \<and> (data_methodName d = None \<or> data_methodName d = Some (KString []))
        \<longrightarrow> new_InitialBindingState w d = Inl (TypeError ''Method name must be provided''))
   \<and> (data_instance d \<noteq> None \<and> data_methodName d \<noteq> None
        \<and> data_methodName d \<noteq> Some (KString []) \<and> data_target d \<noteq> None
        \<and> \<not> is_function w (data_method d)
        \<longrightarrow> new_InitialBindingState w d = Inl (TypeError ''Method must be a function''))
   \<and> (\<exists>msg. define_class_with_field tgt k = Inl (TypeError msg))
   \<and> \<not> reaches_instantiation (define_class_with_field tgt k)
   \<and> (\<forall>md. \<not> is_function w (md_value md)
        \<longrightarrow> (\<exists>acc msg. Bind tgt k (Some md) = Inr acc
               \<and> get (ad_get acc) this w = (Inl (TypeError msg), w)))"
proof (intro conjI allI impI)
  show "(\<exists>msg. new_InitialBindingState w d = Inl (TypeError msg))
      \<longleftrightarrow> (data_instance d = None \<or> data_methodName d = None
           \<or> data_methodName d = Some (KString []) \<or> data_target d = None
           \<or> \<not> is_function w (data_method d))"
    by (auto simp add: new_InitialBindingState_def validate_defs)
next
  fix md :: MethodDescriptor
  assume "\<not> is_function w (md_value md)"
  then have "\<exists>msg. get \<lparr>g_target = tgt, g_propertyKey = k, g_descriptor = md\<rparr> this w
      = (Inl (TypeError msg), w)"
    by (intro get_invalid) simp
  then show "\<exists>acc msg. Bind tgt k (Some md) = Inr acc
               \<and> get (ad_get acc) this w = (Inl (TypeError msg), w)"
    by (simp add: Bind_def)
next
  show "\<exists>msg. define_class_with_field tgt k = Inl (TypeError msg)"
    by (simp add: define_class_with_field_def Bind_def)
next
  show "\<not> reaches_instantiation (define_class_with_field tgt k)"
    by (simp add: define_class_with_field_def reaches_instantiation_def Bind_def)
qed (auto simp add: new_InitialBindingState_def validate_defs split: if_splits)

theorem C8_validated_at_construction_witness:
  "(\<exists>acc msg. Bind (Some 3) (KString ''property'')
                 (Some \<lparr>md_value = VString ''not a method'', md_enumerable = Some True\<rparr>) = Inr acc
        \<and> get (ad_get acc) (Some 5) example_world = (Inl (TypeError msg), example_world))
   \<and> new_InitialBindingState example_world
        \<lparr>data_target = Some 3, data_methodName = Some (KString ''property''),
         data_method = VString ''not a method'', data_instance = Some 5,
         data_enumerable = True\<rparr>
      = Inl (TypeError ''Method must be a function'')
   \<and> (\<exists>msg. define_class_with_field (Some 3) (KString ''property'') = Inl (TypeError msg))"
  using C8_validated_at_construction [of example_world
        "\<lparr>data_target = Some 3, data_methodName = Some (KString ''property''),
         data_method = VString ''not a method'', data_instance = Some 5,
         data_enumerable = True\<rparr>" "Some 3" "KString ''property''" "Some 5"]
  by (simp add: is_function_def)

text \<open>
  C9 (the eligibility guard). The guard throws its \<open>BindingError\<close> exactly when the
  \<open>constructor\<close> of the target object is the intrinsic \<open>Object\<close>, and passes otherwise; so
  it passes for the prototype of a class, whose own \<open>constructor\<close> is the class. When the
  resolution reaches the guard and the guard rejects, \<open>process\<close> returns an error state of
  the phase \<open>bind\<close> that carries the message of the guard.
\<close>

theorem C9_eligibility_guard:
  "(assertCanBind w st = Inl (BindingError ''Cannot bind: method should not bind to prototype'')
      \<longleftrightarrow> Get w (target st) (KString ''constructor'') = VObject Object_constructor)
   \<and> (assertCanBind w st = Inr ()
      \<longleftrightarrow> Get w (target st) (KString ''constructor'') \<noteq> VObject Object_constructor)
   \<and> (\<forall>tob d. lookup w (target st) = Some tob
         \<longrightarrow> props tob (KString ''constructor'') = Some d
         \<longrightarrow> pd_value d \<noteq> VObject Object_constructor
         \<longrightarrow> assertCanBind w st = Inr ())
   \<and> (k \<noteq> KString [] \<and> i \<noteq> t \<and> \<not> hasOwnProperty w i k
        \<and> Get w t (KString ''constructor'') = VObject Object_constructor
      \<longrightarrow> (\<exists>r. process w (InitialBindingState i k e t m) = (Inr r, w)
               \<and> is_BindingErrorState r \<and> failedOperation r = Phase_bind
               \<and> error r = ''Cannot bind: method should not bind to prototype''))"
proof (intro conjI allI impI)
  fix tob d
  assume "lookup w (target st) = Some tob" "props tob (KString ''constructor'') = Some d"
    "pd_value d \<noteq> VObject Object_constructor"
  then show "assertCanBind w st = Inr ()"
    by (simp add: assertCanBind_def shouldBindToPrototype_def Get_own)
next
  assume "k \<noteq> KString [] \<and> i \<noteq> t \<and> \<not> hasOwnProperty w i k
        \<and> Get w t (KString ''constructor'') = VObject Object_constructor"
  then show "\<exists>r. process w (InitialBindingState i k e t m) = (Inr r, w)
               \<and> is_BindingErrorState r \<and> failedOperation r = Phase_bind
               \<and> error r = ''Cannot bind: method should not bind to prototype''"
    by (simp add: process_rejected)
qed (simp_all add: assertCanBind_def shouldBindToPrototype_def)

theorem C9_eligibility_guard_witness:
  "assertCanBind example_world (InitialBindingState 8 (KString ''increment'') False 7 (VObject 4))
     = Inl (BindingError ''Cannot bind: method should not bind to prototype'')
   \<and> assertCanBind example_world (InitialBindingState 5 (KString ''increment'') False 3 (VObject 4))
     = Inr ()
   \<and> (\<exists>r. process example_world (InitialBindingState 8 (KString ''increment'') False 7 (VObject 4))
           = (Inr r, example_world)
         \<and> is_BindingErrorState r \<and> failedOperation r = Phase_bind
         \<and> error r = ''Cannot bind: method should not bind to prototype'')"
  using C9_eligibility_guard [of example_world
      "InitialBindingState 8 (KString ''increment'') False 7 (VObject 4)"
      "KString ''increment''" 8 7 False "VObject 4"]
    C9_eligibility_guard [of example_world
      "InitialBindingState 5 (KString ''increment'') False 3 (VObject 4)"
      "KString ''increment''" 5 3 False "VObject 4"]
  by (simp add: example_eligible literal_ineligible Object_constructor_def
      example_instances_fresh)

text \<open>
  C10 (an own property under the method name wins). When the receiver is not the defining
  object and already holds an own property under the method name, whatever its value and
  whoever wrote it, the access returns the stored value and leaves the world as it was:
  nothing is bound and nothing is defined. The installed property is writable, so after
  an assignment by other code the access returns the assigned value, not the bound
  function.
\<close>

theorem C10_existing_own_property_returned:
  assumes "g_target g = Some t" and "i \<noteq> t" and "g_propertyKey g \<noteq> KString []"
    and "is_function w (md_value (g_descriptor g))"
    and "lookup w i = Some ob" and "props ob (g_propertyKey g) = Some d"
  shows "get g (Some i) w = (Inr (pd_value d), w) \<and>
         (pd_writable d \<longrightarrow>
            (\<forall>v. get g (Some i) (assign w i (g_propertyKey g) v)
                 = (Inr v, assign w i (g_propertyKey g) v)))"
proof (intro conjI impI allI)
  show "get g (Some i) w = (Inr (pd_value d), w)"
    by (rule get_existing [OF assms(1,3,4,2,5,6)])
next
  fix v
  assume wr: "pd_writable d"
  let ?w = "assign w i (g_propertyKey g) v"
  from assms(5) have i: "i < length (objects w)" "objects w ! i = ob"
    by (simp_all add: lookup_SomeD)
  have l: "lookup ?w i = Some (ob\<lparr>props := (props ob)(g_propertyKey g \<mapsto> d\<lparr>pd_value := v\<rparr>)\<rparr>)"
    using assms(5,6) wr i by (simp add: assign_def lookup_def)
  have "get g (Some i) ?w = (Inr (pd_value (d\<lparr>pd_value := v\<rparr>)), ?w)"
    using assms(1) assms(3) _ assms(2) l
    by (rule get_existing) (simp_all add: is_function_assign assms(4))
  then show "get g (Some i) ?w = (Inr v, ?w)" by simp
qed

theorem C10_existing_own_property_returned_witness:
  "get shadowed_getter (Some 5) example_world = (Inr (VNumber 0), example_world) \<and>
   (\<forall>v. get shadowed_getter (Some 5) (assign example_world 5 (KString ''count'') v)
        = (Inr v, assign example_world 5 (KString ''count'') v))"
  using C10_existing_own_property_returned [of shadowed_getter 3 5 example_world
      "\<lparr>props = [KString ''count'' \<mapsto> data_property (VNumber 0) True],
          proto = Some 3, extensible = True, callable = None\<rparr>"
      "data_property (VNumber 0) True"]
  by (simp add: example_defs)

end
